theory Spec2Isabelle
  imports Complex_Main "HOL-Library.Multiset" "HOL-Library.Char_ord" "HOL-Library.List_Lexorder"
begin

section \<open>Values and exceptions\<close>

text \<open>
  The dashboard server (\<^verbatim>\<open>src/advanced_dashboard/server.py\<close>) works on whatever
  \<^verbatim>\<open>json.load\<close> returns. A JSON value is modelled as a datatype; a Python \<^verbatim>\<open>dict\<close>
  is an association list with distinct keys in insertion order. Python's \<^verbatim>\<open>int\<close> and
  \<^verbatim>\<open>float\<close> are both read as exact rationals: the rounding error of binary floating
  point is outside this model.
\<close>

datatype json =
    JNull
  | JBool bool
  | JNum rat
  | JStr string
  | JArr "json list"
  | JObj "(string \<times> json) list"

type_synonym pydict = "(string \<times> json) list"

text \<open>
  The exceptions the modelled code can meet. \<open>JSONDecodeError\<close> carries its message and
  \<open>KeyError\<close> the missing key. \<open>HTTPException status detail cause\<close> is
  FastAPI's exception (a subclass of \<^verbatim>\<open>Exception\<close>); \<open>cause\<close> is the exception \<^verbatim>\<open>e\<close>
  whose \<^verbatim>\<open>str(e)\<close> the handler appends to \<open>detail\<close>, when there is one.
  \<open>NotModelled\<close> is no Python exception: it marks the one input region this model does
  not cover (sorting runs whose \<open>start_time\<close> values are all lists).
\<close>

datatype py_error =
    JSONDecodeError string
  | KeyError string
  | TypeError
  | AttributeError
  | OSError
  | ZeroDivisionError
  | HTTPException nat string "py_error option"
  | NotModelled

definition bind_err :: "py_error + 'a \<Rightarrow> ('a \<Rightarrow> py_error + 'b) \<Rightarrow> py_error + 'b" where
  "bind_err m f = (case m of Inl e \<Rightarrow> Inl e | Inr x \<Rightarrow> f x)"

text \<open>\<^verbatim>\<open>d.get(k, default)\<close> on a dict, and \<^verbatim>\<open>d[k] = v\<close> (an existing key keeps its place).\<close>

definition dict_get :: "pydict \<Rightarrow> string \<Rightarrow> json \<Rightarrow> json" where
  "dict_get d k dflt = (case map_of d k of None \<Rightarrow> dflt | Some v \<Rightarrow> v)"

fun dict_set :: "pydict \<Rightarrow> string \<Rightarrow> json \<Rightarrow> pydict" where
  "dict_set [] k v = [(k, v)]"
| "dict_set ((k', v') # d) k v = (if k' = k then (k, v) # d else (k', v') # dict_set d k v)"

definition dict_has :: "pydict \<Rightarrow> string \<Rightarrow> bool" where
  "dict_has d k = (map_of d k \<noteq> None)"

text \<open>\<^verbatim>\<open>x.get(k, default)\<close> on an arbitrary value: only a dict has the method.\<close>

fun get_method :: "json \<Rightarrow> string \<Rightarrow> json \<Rightarrow> py_error + json" where
  "get_method (JObj d) k dflt = Inr (dict_get d k dflt)"
| "get_method _ k dflt = Inl AttributeError"

text \<open>\<^verbatim>\<open>total += v\<close> with a numeric total: a bool counts as 0 or 1, anything else raises.\<close>

fun py_add :: "rat \<Rightarrow> json \<Rightarrow> py_error + rat" where
  "py_add t (JNum x) = Inr (t + x)"
| "py_add t (JBool b) = Inr (t + of_bool b)"
| "py_add t _ = Inl TypeError"

definition py_truediv :: "rat \<Rightarrow> nat \<Rightarrow> py_error + rat" where
  "py_truediv a n = (if n = 0 then Inl ZeroDivisionError else Inr (a / of_nat n))"

text \<open>\<^verbatim>\<open>round(x, ndigits)\<close>: to the nearest multiple of \<open>10^-ndigits\<close>, ties to even.\<close>

definition round_half_even :: "rat \<Rightarrow> int" where
  "round_half_even y =
     (let f = \<lfloor>y\<rfloor>; d = y - of_int f
      in if d < 1 / 2 then f else if 1 / 2 < d then f + 1 else if even f then f else f + 1)"

definition py_round :: "rat \<Rightarrow> nat \<Rightarrow> rat" where
  "py_round x ndigits = of_int (round_half_even (x * 10 ^ ndigits)) / 10 ^ ndigits"

section \<open>Aggregate metrics\<close>

record totals =
  t_proof_time :: rat
  t_verify_time :: rat
  t_training_time :: rat
  t_final_loss :: rat
  t_proof_size :: rat
  t_duration :: rat

record aggregate_metrics =
  total_benchmarks :: nat
  avg_proof_time :: rat
  avg_verify_time :: rat
  avg_training_time :: rat
  avg_final_loss :: rat
  avg_proof_size :: rat
  total_duration :: rat

definition zero_totals :: totals where
  "zero_totals = \<lparr>t_proof_time = 0, t_verify_time = 0, t_training_time = 0,
     t_final_loss = 0, t_proof_size = 0, t_duration = 0\<rparr>"

definition empty_metrics :: aggregate_metrics where
  "empty_metrics = \<lparr>total_benchmarks = 0, avg_proof_time = 0, avg_verify_time = 0,
     avg_training_time = 0, avg_final_loss = 0, avg_proof_size = 0, total_duration = 0\<rparr>"

text \<open>The body of the loop for one benchmark that is a dict (lines 203-212).\<close>

definition add_benchmark :: "totals \<Rightarrow> pydict \<Rightarrow> py_error + totals" where
  "add_benchmark t b =
     (let zkp_metrics = dict_get b ''zkp_metrics'' (JObj []);
          training_metrics = dict_get b ''training_metrics'' (JObj [])
      in
      bind_err (get_method zkp_metrics ''proof_generation_time_ms'' (JNum 0)) (\<lambda>v1.
      bind_err (py_add (t_proof_time t) v1) (\<lambda>a1.
      bind_err (get_method zkp_metrics ''proof_verification_time_ms'' (JNum 0)) (\<lambda>v2.
      bind_err (py_add (t_verify_time t) v2) (\<lambda>a2.
      bind_err (get_method training_metrics ''training_time_ms'' (JNum 0)) (\<lambda>v3.
      bind_err (py_add (t_training_time t) v3) (\<lambda>a3.
      bind_err (get_method training_metrics ''final_loss'' (JNum 0)) (\<lambda>v4.
      bind_err (py_add (t_final_loss t) v4) (\<lambda>a4.
      bind_err (get_method zkp_metrics ''proof_size_bytes'' (JNum 0)) (\<lambda>v5.
      bind_err (py_add (t_proof_size t) v5) (\<lambda>a5.
      bind_err (py_add (t_duration t) (dict_get b ''total_duration_ms'' (JNum 0))) (\<lambda>a6.
      Inr \<lparr>t_proof_time = a1, t_verify_time = a2, t_training_time = a3,
           t_final_loss = a4, t_proof_size = a5, t_duration = a6\<rparr>))))))))))))"

text \<open>The loop of lines 200-212: the totals and the shared \<open>count\<close>.\<close>

fun accumulate :: "totals \<Rightarrow> nat \<Rightarrow> json list \<Rightarrow> py_error + (totals \<times> nat)" where
  "accumulate t cnt [] = Inr (t, cnt)"
| "accumulate t cnt (JObj b # bs) =
     bind_err (add_benchmark t b) (\<lambda>t'. accumulate t' (cnt + 1) bs)"
| "accumulate t cnt (_ # bs) = accumulate t cnt bs"

definition calculate_aggregate_metrics :: "json list \<Rightarrow> py_error + aggregate_metrics" where
  "calculate_aggregate_metrics benchmarks =
     (if benchmarks = [] then Inr empty_metrics
      else
        bind_err (accumulate zero_totals 0 benchmarks) (\<lambda>(t, cnt0).
        let cnt = (if cnt0 = 0 then 1 else cnt0) in
        bind_err (py_truediv (t_proof_time t) cnt) (\<lambda>q1.
        bind_err (py_truediv (t_verify_time t) cnt) (\<lambda>q2.
        bind_err (py_truediv (t_training_time t) cnt) (\<lambda>q3.
        bind_err (py_truediv (t_final_loss t) cnt) (\<lambda>q4.
        bind_err (py_truediv (t_proof_size t) cnt) (\<lambda>q5.
        bind_err (py_truediv (t_duration t) cnt) (\<lambda>q6.
        Inr \<lparr>total_benchmarks = length benchmarks,
             avg_proof_time = py_round q1 2,
             avg_verify_time = py_round q2 2,
             avg_training_time = py_round q3 2,
             avg_final_loss = py_round q4 4,
             avg_proof_size = py_round q5 2,
             total_duration = py_round q6 2\<rparr>))))))))"

section \<open>The report store scanner\<close>

text \<open>
  The benchmark directory is a snapshot: its entries in the order the operating system
  lists them, each with its name, its modification time and what reading it gives.
  \<open>Malformed msg\<close> is a file on which \<^verbatim>\<open>json.load\<close> raises \<^verbatim>\<open>JSONDecodeError\<close> with
  the message \<open>msg\<close>, \<open>Unreadable\<close> one on which \<^verbatim>\<open>open\<close> raises \<^verbatim>\<open>OSError\<close>. A path that
  \<^verbatim>\<open>glob.glob\<close> returns is represented by the entry it names.
\<close>

datatype file_content = Unreadable | Malformed string | Parsed json

record artifact =
  fname :: string
  mtime :: rat
  content :: file_content

text \<open>
  \<^verbatim>\<open>fnmatch\<close> for patterns made of literal characters and \<^verbatim>\<open>*\<close>, which is what the
  two patterns of the source are made of.
\<close>

fun fnmatch :: "string \<Rightarrow> string \<Rightarrow> bool" where
  "fnmatch [] [] = True"
| "fnmatch (c # cs) [] = False"
| "fnmatch [] (p # ps) = (p = CHR ''*'' \<and> fnmatch [] ps)"
| "fnmatch (c # cs) (p # ps) =
     (if p = CHR ''*'' then fnmatch (c # cs) ps \<or> fnmatch cs (p # ps)
      else p = c \<and> fnmatch cs ps)"

definition glob :: "artifact list \<Rightarrow> string \<Rightarrow> artifact list" where
  "glob dir pattern = filter (\<lambda>f. fnmatch (fname f) pattern) dir"

definition BENCHMARK_DIR :: string where
  "BENCHMARK_DIR = ''../benchmarks''"

definition file_path :: "artifact \<Rightarrow> string" where
  "file_path f = BENCHMARK_DIR @ ''/'' @ fname f"

definition basename :: "string \<Rightarrow> string" where
  "basename p = rev (takeWhile (\<lambda>c. c \<noteq> CHR ''/'') (rev p))"

text \<open>\<^verbatim>\<open>xs.sort(key=k, reverse=True)\<close>: descending, equal keys keep their order.\<close>

definition sort_reverse :: "('a \<Rightarrow> 'k::linorder) \<Rightarrow> 'a list \<Rightarrow> 'a list" where
  "sort_reverse k xs = rev (sort_key k (rev xs))"

text \<open>\<^verbatim>\<open>s.lower()\<close> on ASCII letters, and \<^verbatim>\<open>sub in s\<close> on strings.\<close>

definition char_lower :: "char \<Rightarrow> char" where
  "char_lower c =
     (let n = (of_char c :: nat) in if 65 \<le> n \<and> n \<le> 90 then char_of (n + 32) else c)"

definition lower :: "string \<Rightarrow> string" where
  "lower s = map char_lower s"

fun starts_with :: "string \<Rightarrow> string \<Rightarrow> bool" where
  "starts_with s [] = True"
| "starts_with [] (p # ps) = False"
| "starts_with (c # cs) (p # ps) = (c = p \<and> starts_with cs ps)"

fun str_contains :: "string \<Rightarrow> string \<Rightarrow> bool" where
  "str_contains [] sub = (sub = [])"
| "str_contains (c # cs) sub = (starts_with (c # cs) sub \<or> str_contains cs sub)"

text \<open>Lines 142-148 and 158-164: the scenario is inferred only when the key is absent.\<close>

definition infer_scenario :: "pydict \<Rightarrow> string \<Rightarrow> pydict" where
  "infer_scenario d path =
     (if \<not> dict_has d ''scenario'' then
        (if str_contains (lower path) ''multi'' then dict_set d ''scenario'' (JStr ''multi-client'')
         else if str_contains (lower path) ''single'' then
           dict_set d ''scenario'' (JStr ''single-client'')
         else dict_set d ''scenario'' (JStr ''unknown''))
      else d)"

text \<open>
  What \<^verbatim>\<open>for client_result in data['client_results']\<close> iterates over: the elements of a
  list, the keys of a dict, the characters of a string; anything else is not iterable.
\<close>

fun iterate :: "json \<Rightarrow> py_error + json list" where
  "iterate (JArr xs) = Inr xs"
| "iterate (JObj d) = Inr (map (\<lambda>(k, v). JStr k) d)"
| "iterate (JStr s) = Inr (map (\<lambda>c. JStr [c]) s)"
| "iterate _ = Inl TypeError"

text \<open>Lines 133-150 for one entry: item assignment raises on anything but a dict.\<close>

fun client_record :: "artifact \<Rightarrow> pydict \<Rightarrow> json \<Rightarrow> py_error + pydict" where
  "client_record f data (JObj client_result) =
     (let r1 = dict_set client_result ''filename'' (JStr (basename (file_path f)));
          r2 = dict_set r1 ''file_mtime'' (JNum (mtime f));
          r3 = dict_set r2 ''report_id'' (dict_get data ''benchmark_id'' (JStr ''unknown''));
          r4 = dict_set r3 ''num_clients'' (dict_get data ''num_clients'' (JNum 1))
      in Inr (infer_scenario r4 (file_path f)))"
| "client_record f data _ = Inl TypeError"

fun client_records :: "artifact \<Rightarrow> pydict \<Rightarrow> json list \<Rightarrow> py_error + pydict list" where
  "client_records f data [] = Inr []"
| "client_records f data (c # cs) =
     bind_err (client_record f data c) (\<lambda>r.
     bind_err (client_records f data cs) (\<lambda>rs. Inr (r # rs)))"

text \<open>
  Lines 127-166 for a loaded value: the records one file adds to \<^verbatim>\<open>benchmark_files\<close>.
  On a value that is not a dict, \<^verbatim>\<open>'client_results' in data\<close>, the subscript or the item
  assignment raises \<^verbatim>\<open>TypeError\<close>.
\<close>

fun normalize :: "artifact \<Rightarrow> json \<Rightarrow> py_error + pydict list" where
  "normalize f (JObj data) =
     (if dict_has data ''client_results'' then
        bind_err (iterate (dict_get data ''client_results'' JNull)) (client_records f data)
      else
        (let d1 = dict_set data ''filename'' (JStr (basename (file_path f)));
             d2 = dict_set d1 ''file_mtime'' (JNum (mtime f))
         in Inr [infer_scenario d2 (file_path f)]))"
| "normalize f _ = Inl TypeError"

definition process_file :: "artifact \<Rightarrow> py_error + pydict list" where
  "process_file f =
     (case content f of
        Unreadable \<Rightarrow> Inl OSError
      | Malformed msg \<Rightarrow> Inl (JSONDecodeError msg)
      | Parsed data \<Rightarrow> normalize f data)"

text \<open>
  The loop of lines 124-169. \<^verbatim>\<open>except (json.JSONDecodeError, KeyError) as e\<close> prints the
  warning of line 168 with \<^verbatim>\<open>str(e)\<close>, skips the file and goes on; any other exception
  leaves the loop. \<open>out\<close> holds the warnings printed so far (the other prints of the
  function are left out).
\<close>

fun skip_message :: "py_error \<Rightarrow> string option" where
  "skip_message (JSONDecodeError msg) = Some msg"
| "skip_message (KeyError key) = Some ([CHR 0x27] @ key @ [CHR 0x27])"
| "skip_message _ = None"

definition warning :: "artifact \<Rightarrow> string \<Rightarrow> string" where
  "warning f msg = ''Warning: Failed to load '' @ file_path f @ '': '' @ msg"

fun load_loop ::
    "string list \<Rightarrow> pydict list \<Rightarrow> artifact list \<Rightarrow> string list \<times> (py_error + pydict list)" where
  "load_loop out benchmark_files [] = (out, Inr benchmark_files)"
| "load_loop out benchmark_files (f # fs) =
     (case process_file f of
        Inl e \<Rightarrow>
          (case skip_message e of
             Some msg \<Rightarrow> load_loop (out @ [warning f msg]) benchmark_files fs
           | None \<Rightarrow> (out, Inl e))
      | Inr recs \<Rightarrow> load_loop out (benchmark_files @ recs) fs)"

definition all_files :: "artifact list \<Rightarrow> artifact list" where
  "all_files dir =
     sort_reverse mtime (glob dir ''benchmark_*.json'' @ glob dir ''benchmark_report_*.json'')"

text \<open>The outer \<^verbatim>\<open>except Exception\<close> of lines 174-176 turns every other failure into \<open>[]\<close>.\<close>

definition load_benchmark_files :: "artifact list \<Rightarrow> pydict list" where
  "load_benchmark_files dir =
     (case snd (load_loop [] [] (all_files dir)) of
        Inl e \<Rightarrow> []
      | Inr benchmark_files \<Rightarrow> benchmark_files)"

section \<open>Truth values and equality of Python values\<close>

fun truthy :: "json \<Rightarrow> bool" where
  "truthy JNull = False"
| "truthy (JBool b) = b"
| "truthy (JNum x) = (x \<noteq> 0)"
| "truthy (JStr s) = (s \<noteq> [])"
| "truthy (JArr xs) = (xs \<noteq> [])"
| "truthy (JObj d) = (d \<noteq> [])"

text \<open>\<^verbatim>\<open>a or b\<close>.\<close>

definition py_or :: "json \<Rightarrow> json \<Rightarrow> json" where
  "py_or a b = (if truthy a then a else b)"

text \<open>
  \<^verbatim>\<open>a == b\<close>: numbers and bools compare by value, lists element by element, dicts
  key by key whatever the order of their keys.
\<close>

fun py_eq :: "json \<Rightarrow> json \<Rightarrow> bool"
  and py_eq_list :: "json list \<Rightarrow> json list \<Rightarrow> bool"
  and py_eq_items :: "(string \<times> json) list \<Rightarrow> (string \<times> json) list \<Rightarrow> bool" where
  "py_eq JNull b = (b = JNull)"
| "py_eq (JBool x) b = (case b of JBool y \<Rightarrow> x = y | JNum y \<Rightarrow> of_bool x = y | _ \<Rightarrow> False)"
| "py_eq (JNum x) b = (case b of JBool y \<Rightarrow> x = of_bool y | JNum y \<Rightarrow> x = y | _ \<Rightarrow> False)"
| "py_eq (JStr s) b = (b = JStr s)"
| "py_eq (JArr xs) b = (case b of JArr ys \<Rightarrow> py_eq_list xs ys | _ \<Rightarrow> False)"
| "py_eq (JObj d) b = (case b of JObj e \<Rightarrow> length d = length e \<and> py_eq_items d e | _ \<Rightarrow> False)"
| "py_eq_list [] ys = (ys = [])"
| "py_eq_list (x # xs) ys = (case ys of [] \<Rightarrow> False | y # ys' \<Rightarrow> py_eq x y \<and> py_eq_list xs ys')"
| "py_eq_items [] e = True"
| "py_eq_items ((k, v) # d) e =
     ((case map_of e k of None \<Rightarrow> False | Some w \<Rightarrow> py_eq v w) \<and> py_eq_items d e)"

text \<open>\<^verbatim>\<open>x in xs\<close> on a list, and which values can be keys of a dict.\<close>

definition py_in :: "json \<Rightarrow> json list \<Rightarrow> bool" where
  "py_in x xs = list_ex (py_eq x) xs"

fun hashable :: "json \<Rightarrow> bool" where
  "hashable (JArr xs) = False"
| "hashable (JObj d) = False"
| "hashable _ = True"

section \<open>Looking a record up\<close>

text \<open>
  \<^verbatim>\<open>get_benchmark\<close>, lines 336-348. The \<^verbatim>\<open>raise HTTPException(status_code=404, ...)\<close>
  stands inside the \<^verbatim>\<open>try\<close> whose handler is \<^verbatim>\<open>except Exception\<close>, and
  \<^verbatim>\<open>HTTPException\<close> is an \<^verbatim>\<open>Exception\<close>: the handler catches it as it catches any
  other, and raises the 500 in its place.
\<close>

definition find_benchmark :: "pydict list \<Rightarrow> string \<Rightarrow> py_error + pydict" where
  "find_benchmark benchmarks session_id =
     (case find (\<lambda>b. py_eq (dict_get b ''session_id'' JNull) (JStr session_id)) benchmarks of
        None \<Rightarrow> Inl (HTTPException 404 ''Benchmark not found'' None)
      | Some benchmark \<Rightarrow>
          if benchmark = [] then Inl (HTTPException 404 ''Benchmark not found'' None)
          else Inr benchmark)"

definition get_benchmark :: "artifact list \<Rightarrow> string \<Rightarrow> py_error + pydict" where
  "get_benchmark dir session_id =
     (case find_benchmark (load_benchmark_files dir) session_id of
        Inl e \<Rightarrow> Inl (HTTPException 500 ''Failed to get benchmark: '' (Some e))
      | Inr benchmark \<Rightarrow> Inr benchmark)"

section \<open>Grouping records into runs\<close>

record run =
  run_id :: json
  scenario :: json
  start_time :: json
  num_clients :: json
  client_ids :: "json list"

text \<open>
  The dict \<^verbatim>\<open>runs\<close> is the list of its values in insertion order; its keys are the
  \<open>run_id\<close>s, compared as Python compares dict keys.
\<close>

definition has_run :: "run list \<Rightarrow> json \<Rightarrow> bool" where
  "has_run runs rid = list_ex (\<lambda>r. py_eq (run_id r) rid) runs"

text \<open>Lines 450-451: \<^verbatim>\<open>runs[run_id]['client_ids'].append(...)\<close> unless it is there.\<close>

fun append_client :: "run list \<Rightarrow> json \<Rightarrow> json \<Rightarrow> run list" where
  "append_client [] rid cid = []"
| "append_client (r # rs) rid cid =
     (if py_eq (run_id r) rid then
        (if py_in cid (client_ids r) then r else r\<lparr>client_ids := client_ids r @ [cid]\<rparr>) # rs
      else r # append_client rs rid cid)"

text \<open>The body of the loop, lines 438-451, for one record.\<close>

definition group_step :: "run list \<Rightarrow> pydict \<Rightarrow> py_error + run list" where
  "group_step runs b =
     (let rid = py_or (dict_get b ''report_id'' JNull) (dict_get b ''session_id'' JNull) in
      if \<not> truthy rid then Inr runs
      else if \<not> hashable rid then Inl TypeError
      else
        (let runs1 =
               (if \<not> has_run runs rid then
                  runs @ [\<lparr>run_id = rid,
                           scenario = dict_get b ''scenario'' (JStr ''unknown''),
                           start_time = dict_get b ''start_time'' JNull,
                           num_clients = dict_get b ''num_clients'' (JNum 1),
                           client_ids = []\<rparr>]
                else runs);
             cid = dict_get b ''client_id'' JNull
         in Inr (if truthy cid then append_client runs1 rid cid else runs1)))"

fun group_loop :: "run list \<Rightarrow> pydict list \<Rightarrow> py_error + run list" where
  "group_loop runs [] = Inr runs"
| "group_loop runs (b # bs) = bind_err (group_step runs b) (\<lambda>runs'. group_loop runs' bs)"

text \<open>
  Line 453: \<^verbatim>\<open>sorted(runs.values(), key=lambda x: x['start_time'] or '', reverse=True)\<close>.
  With fewer than two runs nothing is compared. Strings are ordered among themselves, and
  so are numbers; a dict is ordered with nothing and keys of different kinds are not
  ordered with each other, so the sort raises \<^verbatim>\<open>TypeError\<close>. When all keys are lists
  Python compares them element by element and what happens depends on the pairs the sort
  compares: this model does not cover that case.
\<close>

definition sort_key_of :: "run \<Rightarrow> json" where
  "sort_key_of x = py_or (start_time x) (JStr [])"

fun is_str :: "json \<Rightarrow> bool" where
  "is_str (JStr s) = True"
| "is_str _ = False"

fun is_num :: "json \<Rightarrow> bool" where
  "is_num (JNum x) = True"
| "is_num (JBool b) = True"
| "is_num _ = False"

fun is_arr :: "json \<Rightarrow> bool" where
  "is_arr (JArr xs) = True"
| "is_arr _ = False"

fun str_of :: "json \<Rightarrow> string" where
  "str_of (JStr s) = s"
| "str_of _ = []"

fun num_of :: "json \<Rightarrow> rat" where
  "num_of (JNum x) = x"
| "num_of (JBool b) = of_bool b"
| "num_of _ = 0"

definition sort_runs :: "run list \<Rightarrow> py_error + run list" where
  "sort_runs runs =
     (if length runs \<le> 1 then Inr runs
      else if list_all (\<lambda>x. is_str (sort_key_of x)) runs then
        Inr (sort_reverse (\<lambda>x. str_of (sort_key_of x)) runs)
      else if list_all (\<lambda>x. is_num (sort_key_of x)) runs then
        Inr (sort_reverse (\<lambda>x. num_of (sort_key_of x)) runs)
      else if list_all (\<lambda>x. is_arr (sort_key_of x)) runs then Inl NotModelled
      else Inl TypeError)"

text \<open>The body of the \<^verbatim>\<open>try\<close> of \<^verbatim>\<open>get_runs\<close> after the load, and the handler.\<close>

definition list_runs :: "pydict list \<Rightarrow> py_error + run list" where
  "list_runs benchmarks = bind_err (group_loop [] benchmarks) sort_runs"


section \<open>The run supervisor\<close>

text \<open>
  The module-level state of the server: \<^verbatim>\<open>benchmark_status\<close> (\<open>running\<close>,
  \<open>message\<close>), \<^verbatim>\<open>current_benchmark_process\<close> (the handle, here a process id), the
  working directory of the service as the list of its path components, and the tasks the
  handlers have handed to \<^verbatim>\<open>background_tasks\<close> and that have not begun. What lies
  outside the program is a parameter \<open>run_env\<close> of one run: whether
  \<^verbatim>\<open>os.chdir(WORKSPACE_DIR)\<close> raises, what \<^verbatim>\<open>subprocess.Popen\<close> does with the command,
  and what \<^verbatim>\<open>communicate\<close> returns. The final \<^verbatim>\<open>os.chdir(original_cwd)\<close> goes back to
  a directory the service has just been in and is taken to succeed. Handlers and the
  background task are modelled one call at a time; how the event loop interleaves them is
  not part of the model.
\<close>

record BenchmarkConfig =
  cfg_scenario :: string
  numClients :: int
  numRounds :: int
  clientDelay :: int
  maxConcurrent :: int
  serverUrl :: "string option"

fun str_nat :: "nat \<Rightarrow> string" where
  "str_nat n =
     (if n < 10 then [char_of (48 + n)] else str_nat (n div 10) @ [char_of (48 + n mod 10)])"

declare str_nat.simps [simp del]

definition str_int :: "int \<Rightarrow> string" where
  "str_int i = (if i < 0 then CHR ''-'' # str_nat (nat (- i)) else str_nat (nat i))"

definition scenario_mapping :: "(string \<times> string) list" where
  "scenario_mapping =
     [(''single-client'', ''single-client''),
      (''multi-client-sequential'', ''multi-client-sequential''),
      (''multi-client-concurrent'', ''multi-client-concurrent''),
      (''stress-test'', ''stress-test''),
      (''custom'', ''custom'')]"

definition build_benchmark_command :: "BenchmarkConfig \<Rightarrow> string list" where
  "build_benchmark_command cfg =
     (let cmd = [''cargo'', ''run'', ''--bin'', ''benchmarks'', ''--''];
          scenario = (case map_of scenario_mapping (cfg_scenario cfg) of
                        None \<Rightarrow> cfg_scenario cfg | Some v \<Rightarrow> v);
          cmd = cmd @ [''--scenario'', scenario];
          cmd = cmd @ [''--num-clients'', str_int (numClients cfg)];
          cmd = cmd @ [''--rounds'', str_int (numRounds cfg)];
          cmd = cmd @ [''--client-delay-ms'', str_int (clientDelay cfg)];
          cmd = cmd @ [''--max-concurrent'', str_int (maxConcurrent cfg)];
          cmd = (case serverUrl cfg of
                   None \<Rightarrow> cmd
                 | Some url \<Rightarrow> if url = [] then cmd else cmd @ [''--server-url'', url])
      in cmd @ [''--verbose''])"

datatype path = AbsPath "string list" | RelPath "string list"

definition WORKSPACE_DIR :: path where
  "WORKSPACE_DIR = RelPath [''..'']"

definition enter :: "string list \<Rightarrow> string \<Rightarrow> string list" where
  "enter d c = (if c = ''..'' then butlast d else if c = ''.'' then d else d @ [c])"

fun resolve :: "string list \<Rightarrow> path \<Rightarrow> string list" where
  "resolve d (AbsPath cs) = cs"
| "resolve d (RelPath cs) = foldl enter d cs"

record supervisor =
  running :: bool
  message :: string
  current_benchmark_process :: "nat option"
  cwd :: "string list"
  scheduled :: "BenchmarkConfig list"

datatype spawn_result = SpawnFailed string | Spawned nat

record run_env =
  chdir_error :: "string option"
  popen :: "string list \<Rightarrow> spawn_result"
  communicate_error :: "string option"
  stdout :: string
  stderr :: string
  returncode :: int

record run_result =
  success :: bool
  result_message :: string
  result_stdout :: string
  result_stderr :: string

text \<open>
  \<^verbatim>\<open>run_benchmark_process\<close>, lines 254-315, block by block: the \<^verbatim>\<open>try\<close> block up to
  the spawned process (lines 262-281) and from the wait for the process to its outcome
  (lines 284-301), the \<^verbatim>\<open>except Exception\<close> handler (lines 303-310), the \<^verbatim>\<open>finally\<close>
  block (lines 311-315), and the function that puts them together. An exception is carried
  as its \<^verbatim>\<open>str(e)\<close>.
\<close>

definition begin_run :: "run_env \<Rightarrow> BenchmarkConfig \<Rightarrow> supervisor \<Rightarrow> (string + nat) \<times> supervisor" where
  "begin_run env cfg s =
     (let s1 = s\<lparr>running := True, message := ''Initializing benchmark...''\<rparr> in
      case chdir_error env of
        Some e \<Rightarrow> (Inl e, s1)
      | None \<Rightarrow>
          (let s2 = s1\<lparr>cwd := resolve (cwd s1) WORKSPACE_DIR\<rparr>;
               cmd = build_benchmark_command cfg
           in case popen env cmd of
                SpawnFailed e \<Rightarrow> (Inl e, s2)
              | Spawned pid \<Rightarrow>
                  (Inr pid, s2\<lparr>current_benchmark_process := Some pid,
                               message := ''Benchmark running...''\<rparr>)))"

definition await_run :: "run_env \<Rightarrow> supervisor \<Rightarrow> (string + run_result) \<times> supervisor" where
  "await_run env s =
     (case communicate_error env of
        Some e \<Rightarrow> (Inl e, s)
      | None \<Rightarrow>
          (let return_code = returncode env in
           if return_code = 0 then
             (Inr \<lparr>success = True, result_message = ''Benchmark completed successfully'',
                   result_stdout = stdout env, result_stderr = stderr env\<rparr>,
              s\<lparr>message := ''Benchmark completed successfully''\<rparr>)
           else
             (Inr \<lparr>success = False,
                   result_message = ''Benchmark failed with return code '' @ str_int return_code,
                   result_stdout = stdout env, result_stderr = stderr env\<rparr>,
              s\<lparr>message := ''Benchmark failed with code '' @ str_int return_code\<rparr>)))"

definition try_block ::
    "run_env \<Rightarrow> BenchmarkConfig \<Rightarrow> supervisor \<Rightarrow> (string + run_result) \<times> supervisor" where
  "try_block env cfg s =
     (case begin_run env cfg s of
        (Inl e, s1) \<Rightarrow> (Inl e, s1)
      | (Inr pid, s1) \<Rightarrow> await_run env s1)"

definition except_block :: "string \<Rightarrow> supervisor \<Rightarrow> run_result \<times> supervisor" where
  "except_block e s =
     (\<lparr>success = False, result_message = ''Error running benchmark: '' @ e,
       result_stdout = [], result_stderr = e\<rparr>,
      s\<lparr>message := ''Benchmark error: '' @ e\<rparr>)"

definition finally_block :: "path \<Rightarrow> supervisor \<Rightarrow> supervisor" where
  "finally_block original_cwd s =
     s\<lparr>running := False, current_benchmark_process := None,
       cwd := resolve (cwd s) original_cwd\<rparr>"

definition run_benchmark_process ::
    "run_env \<Rightarrow> BenchmarkConfig \<Rightarrow> supervisor \<Rightarrow> run_result \<times> supervisor" where
  "run_benchmark_process env cfg s =
     (let original_cwd = AbsPath (cwd s);
          (result, s') =
            (case try_block env cfg s of
               (Inr r, s1) \<Rightarrow> (r, s1)
             | (Inl e, s1) \<Rightarrow> except_block e s1)
      in (result, finally_block original_cwd s'))"

text \<open>The handler \<^verbatim>\<open>run_benchmark\<close>, lines 359-377.\<close>

record BenchmarkRequest =
  command :: string
  config :: BenchmarkConfig

record started =
  started_success :: bool
  started_message :: string
  started_config :: BenchmarkConfig

definition run_benchmark :: "BenchmarkRequest \<Rightarrow> supervisor \<Rightarrow> (py_error + started) \<times> supervisor" where
  "run_benchmark request s =
     (if running s then (Inl (HTTPException 400 ''Benchmark already running'' None), s)
      else
        (Inr \<lparr>started_success = True, started_message = ''Benchmark started'',
              started_config = config request\<rparr>,
         s\<lparr>scheduled := scheduled s @ [config request]\<rparr>))"


section \<open>The specification's notions and example inputs\<close>








text \<open>Records on which the computation returns: every metric is a number or is absent.\<close>

definition metric_ok :: "string \<Rightarrow> string \<Rightarrow> pydict \<Rightarrow> bool" where
  "metric_ok sub k b =
     (case dict_get b sub (JObj []) of JObj d \<Rightarrow> is_num (dict_get d k (JNum 0)) | _ \<Rightarrow> False)"

definition record_ok :: "pydict \<Rightarrow> bool" where
  "record_ok b =
     (metric_ok ''zkp_metrics'' ''proof_generation_time_ms'' b
      \<and> metric_ok ''zkp_metrics'' ''proof_verification_time_ms'' b
      \<and> metric_ok ''training_metrics'' ''training_time_ms'' b
      \<and> metric_ok ''training_metrics'' ''final_loss'' b
      \<and> metric_ok ''zkp_metrics'' ''proof_size_bytes'' b
      \<and> is_num (dict_get b ''total_duration_ms'' (JNum 0)))"

fun records_ok :: "json list \<Rightarrow> bool" where
  "records_ok [] = True"
| "records_ok (JObj b # bs) = (record_ok b \<and> records_ok bs)"
| "records_ok (_ # bs) = records_ok bs"



text \<open>
  The two shapes of a raw report file, as the specification's data model has them: the
  record-shaped entries of a multi-client report, or the single record itself.
\<close>

fun as_dicts :: "json list \<Rightarrow> pydict list option" where
  "as_dicts [] = Some []"
| "as_dicts (JObj d # xs) = map_option ((#) d) (as_dicts xs)"
| "as_dicts (_ # xs) = None"

definition raw_entries :: "pydict \<Rightarrow> pydict list option" where
  "raw_entries data =
     (if dict_has data ''client_results'' then
        (case dict_get data ''client_results'' JNull of JArr xs \<Rightarrow> as_dicts xs | _ \<Rightarrow> None)
      else Some [data])"

text \<open>
  The scenario of a normalized record, written from the specification's rule:
  \<open>stated_scenario\<close> looks for the substrings in the file name as it is,
  \<open>expected_scenario\<close> in the lower-cased file name.
\<close>

definition stated_scenario :: "string \<Rightarrow> pydict \<Rightarrow> json" where
  "stated_scenario name e =
     (if dict_has e ''scenario'' then dict_get e ''scenario'' JNull
      else if str_contains name ''multi'' then JStr ''multi-client''
      else if str_contains name ''single'' then JStr ''single-client''
      else JStr ''unknown'')"

definition expected_scenario :: "string \<Rightarrow> pydict \<Rightarrow> json" where
  "expected_scenario name e = stated_scenario (lower name) e"

definition scenario_of :: "pydict \<Rightarrow> json" where
  "scenario_of r = dict_get r ''scenario'' JNull"




text \<open>
  The run a record belongs to, from the specification's words: the group whose identifier
  is the record's \<open>report_id\<close>, or else its \<open>session_id\<close>. \<open>group_records\<close> are the
  input records of one group.
\<close>

definition run_key :: "pydict \<Rightarrow> json" where
  "run_key b = py_or (dict_get b ''report_id'' JNull) (dict_get b ''session_id'' JNull)"



text \<open>
  Records on which the listing returns: the run identifier is a string, a number, a bool
  or absent, and \<open>start_time\<close> is a string or absent.
\<close>

definition run_record_ok :: "pydict \<Rightarrow> bool" where
  "run_record_ok b =
     ((\<not> truthy (run_key b) \<or> hashable (run_key b))
      \<and> is_str (py_or (dict_get b ''start_time'' JNull) (JStr [])))"

definition str_keys :: "run list \<Rightarrow> bool" where
  "str_keys runs = list_all (\<lambda>x. is_str (sort_key_of x)) runs"

text \<open>A dict key up to Python's equality of keys: \<^verbatim>\<open>True\<close> and \<^verbatim>\<open>1\<close> are one key.\<close>

fun hkey :: "json \<Rightarrow> json" where
  "hkey (JBool b) = JNum (of_bool b)"
| "hkey x = x"




definition single_a :: artifact where
  "single_a = \<lparr>fname = ''benchmark_single_7.json'', mtime = 20,
     content = Parsed (JObj [(''session_id'', JStr ''a'')])\<rparr>"


definition multi_m :: artifact where
  "multi_m = \<lparr>fname = ''benchmark_multi_client_42.json'', mtime = 10,
     content = Parsed (JObj [(''benchmark_id'', JStr ''run-42''), (''num_clients'', JNum 2),
       (''client_results'', JArr [JObj [(''session_id'', JStr ''c1'')],
                                  JObj [(''session_id'', JStr ''c2'')]])])\<rparr>"

definition report_99 :: artifact where
  "report_99 = \<lparr>fname = ''benchmark_report_99.json'', mtime = 5,
     content = Parsed (JObj [(''session_id'', JStr ''r'')])\<rparr>"

definition upper_file :: artifact where
  "upper_file = \<lparr>fname = ''benchmark_MULTI_1.json'', mtime = 1, content = Parsed (JObj [])\<rparr>"





definition idle :: supervisor where
  "idle = \<lparr>running = False, message = [], current_benchmark_process = None,
     cwd = [''srv'', ''zkp-fl'', ''advanced_dashboard''], scheduled = []\<rparr>"

definition demo_config :: BenchmarkConfig where
  "demo_config = \<lparr>cfg_scenario = ''single-client'', numClients = 1, numRounds = 3,
     clientDelay = 0, maxConcurrent = 1, serverUrl = None\<rparr>"


definition demo_env :: run_env where
  "demo_env = \<lparr>chdir_error = None, popen = (\<lambda>cmd. Spawned 4242),
     communicate_error = None, stdout = ''ok'', stderr = [], returncode = 0\<rparr>"


section \<open>Properties of the aggregate metrics\<close>

subsection \<open>The loop computes the sums\<close>


lemma bind_err_Inl: "bind_err m f = Inl e \<longleftrightarrow> m = Inl e \<or> (\<exists>x. m = Inr x \<and> f x = Inl e)"
  by (cases m) (simp_all add: bind_err_def)





lemma get_method_Inl: "get_method v k d = Inl e \<Longrightarrow> e \<noteq> ZeroDivisionError"
  by (cases v) auto

lemma py_add_Inl: "py_add a v = Inl e \<Longrightarrow> e \<noteq> ZeroDivisionError"
  by (cases v) auto

lemma add_benchmark_Inl: "add_benchmark t b = Inl e \<Longrightarrow> e \<noteq> ZeroDivisionError"
  unfolding add_benchmark_def Let_def bind_err_Inl
  by (elim disjE exE conjE) (simp_all add: get_method_Inl py_add_Inl)

lemma accumulate_Inl: "accumulate t cnt bs = Inl e \<Longrightarrow> e \<noteq> ZeroDivisionError"
proof (induction t cnt bs rule: accumulate.induct)
  case (2 t cnt b bs)
  then show ?case
    by (auto simp: bind_err_Inl dest: add_benchmark_Inl)
qed simp_all

lemma py_truediv_pos: "0 < n \<Longrightarrow> py_truediv a n = Inr (a / of_nat n)"
  by (simp add: py_truediv_def)

lemma calculate_nonempty:
  assumes ne: "benchmarks \<noteq> []" and acc: "accumulate zero_totals 0 benchmarks = Inr (t, cnt0)"
  shows "calculate_aggregate_metrics benchmarks =
     Inr \<lparr>total_benchmarks = length benchmarks,
          avg_proof_time = py_round (t_proof_time t / of_nat (max 1 cnt0)) 2,
          avg_verify_time = py_round (t_verify_time t / of_nat (max 1 cnt0)) 2,
          avg_training_time = py_round (t_training_time t / of_nat (max 1 cnt0)) 2,
          avg_final_loss = py_round (t_final_loss t / of_nat (max 1 cnt0)) 4,
          avg_proof_size = py_round (t_proof_size t / of_nat (max 1 cnt0)) 2,
          total_duration = py_round (t_duration t / of_nat (max 1 cnt0)) 2\<rparr>"
proof -
  have c: "(if cnt0 = 0 then 1 else cnt0) = max 1 cnt0" by simp
  have pos: "0 < max 1 cnt0" by simp
  show ?thesis
    unfolding calculate_aggregate_metrics_def acc
    by (simp only: ne if_False bind_err_def sum.case prod.case Let_def c py_truediv_pos [OF pos])
qed

lemma py_add_num: "is_num v \<Longrightarrow> \<exists>a'. py_add a v = Inr a'"
  by (cases v) auto

lemma metric_ok_step:
  assumes "metric_ok sub k b"
  shows "\<exists>v a'. get_method (dict_get b sub (JObj [])) k (JNum 0) = Inr v \<and> py_add a v = Inr a'"
proof -
  from assms obtain d where d: "dict_get b sub (JObj []) = JObj d" and n: "is_num (dict_get d k (JNum 0))"
    by (auto simp: metric_ok_def split: json.splits)
  from py_add_num [OF n, of a] show ?thesis
    by (simp add: d)
qed

lemma add_benchmark_returns:
  assumes "record_ok b"
  shows "\<exists>t'. add_benchmark t b = Inr t'"
proof -
  from assms have m1: "metric_ok ''zkp_metrics'' ''proof_generation_time_ms'' b"
    and m2: "metric_ok ''zkp_metrics'' ''proof_verification_time_ms'' b"
    and m3: "metric_ok ''training_metrics'' ''training_time_ms'' b"
    and m4: "metric_ok ''training_metrics'' ''final_loss'' b"
    and m5: "metric_ok ''zkp_metrics'' ''proof_size_bytes'' b"
    and m6: "is_num (dict_get b ''total_duration_ms'' (JNum 0))"
    by (simp_all add: record_ok_def)
  from metric_ok_step [OF m1, of "t_proof_time t"] obtain v1 a1 where
    s1: "get_method (dict_get b ''zkp_metrics'' (JObj [])) ''proof_generation_time_ms'' (JNum 0) = Inr v1"
      "py_add (t_proof_time t) v1 = Inr a1" by blast
  from metric_ok_step [OF m2, of "t_verify_time t"] obtain v2 a2 where
    s2: "get_method (dict_get b ''zkp_metrics'' (JObj [])) ''proof_verification_time_ms'' (JNum 0) = Inr v2"
      "py_add (t_verify_time t) v2 = Inr a2" by blast
  from metric_ok_step [OF m3, of "t_training_time t"] obtain v3 a3 where
    s3: "get_method (dict_get b ''training_metrics'' (JObj [])) ''training_time_ms'' (JNum 0) = Inr v3"
      "py_add (t_training_time t) v3 = Inr a3" by blast
  from metric_ok_step [OF m4, of "t_final_loss t"] obtain v4 a4 where
    s4: "get_method (dict_get b ''training_metrics'' (JObj [])) ''final_loss'' (JNum 0) = Inr v4"
      "py_add (t_final_loss t) v4 = Inr a4" by blast
  from metric_ok_step [OF m5, of "t_proof_size t"] obtain v5 a5 where
    s5: "get_method (dict_get b ''zkp_metrics'' (JObj [])) ''proof_size_bytes'' (JNum 0) = Inr v5"
      "py_add (t_proof_size t) v5 = Inr a5" by blast
  from py_add_num [OF m6, of "t_duration t"] obtain a6 where
    s6: "py_add (t_duration t) (dict_get b ''total_duration_ms'' (JNum 0)) = Inr a6" by blast
  show ?thesis
    unfolding add_benchmark_def Let_def
    by (simp add: s1 s2 s3 s4 s5 s6 bind_err_def)
qed

lemma accumulate_returns: "records_ok bs \<Longrightarrow> \<exists>r. accumulate t cnt bs = Inr r"
proof (induction t cnt bs rule: accumulate.induct)
  case (2 t cnt b bs)
  from "2.prems" have ok: "record_ok b" and rest: "records_ok bs" by simp_all
  from add_benchmark_returns [OF ok, of t] obtain t' where t': "add_benchmark t b = Inr t'" ..
  from "2.IH" [OF rest, of t'] show ?case
    by (simp add: t' bind_err_def)
qed simp_all

lemma calculate_returns: "records_ok bs \<Longrightarrow> \<exists>m. calculate_aggregate_metrics bs = Inr m"
proof (cases "bs = []")
  case True
  then show ?thesis by (simp add: calculate_aggregate_metrics_def)
next
  case False
  assume "records_ok bs"
  from accumulate_returns [OF this, of zero_totals 0] obtain t cnt0 where
    "accumulate zero_totals 0 bs = Inr (t, cnt0)" by force
  from calculate_nonempty [OF False this] show ?thesis by blast
qed

text \<open>
  C8. The aggregate of the empty record set is the all-zero struct with
  \<open>total_benchmarks = 0\<close>, and for no input does the computation divide by zero: every
  division is by a count of at least 1.
\<close>

theorem aggregate_empty_no_zero_division:
  "calculate_aggregate_metrics [] =
     Inr \<lparr>total_benchmarks = 0, avg_proof_time = 0, avg_verify_time = 0,
          avg_training_time = 0, avg_final_loss = 0, avg_proof_size = 0, total_duration = 0\<rparr>
   \<and> (\<forall>benchmarks. calculate_aggregate_metrics benchmarks \<noteq> Inl ZeroDivisionError)"
proof (intro conjI allI)
  show "calculate_aggregate_metrics [] =
     Inr \<lparr>total_benchmarks = 0, avg_proof_time = 0, avg_verify_time = 0,
          avg_training_time = 0, avg_final_loss = 0, avg_proof_size = 0, total_duration = 0\<rparr>"
    by (simp add: calculate_aggregate_metrics_def empty_metrics_def)
next
  fix benchmarks
  show "calculate_aggregate_metrics benchmarks \<noteq> Inl ZeroDivisionError"
  proof (cases "benchmarks = []")
    case True
    then show ?thesis by (simp add: calculate_aggregate_metrics_def)
  next
    case False
    show ?thesis
    proof (cases "accumulate zero_totals 0 benchmarks")
      case (Inl e)
      then have "calculate_aggregate_metrics benchmarks = Inl e"
        using False by (simp add: calculate_aggregate_metrics_def bind_err_def)
      with accumulate_Inl [OF Inl] show ?thesis by simp
    next
      case (Inr r)
      obtain t cnt0 where r: "r = (t, cnt0)" by (cases r)
      show ?thesis
        using calculate_nonempty [OF False Inr [unfolded r]] by simp
    qed
  qed
qed




section \<open>Properties of the scanner\<close>

subsection \<open>Dictionaries, paths and patterns\<close>

lemma map_of_dict_set: "map_of (dict_set d k v) = (map_of d)(k \<mapsto> v)"
  by (induction d k v rule: dict_set.induct) (auto simp: fun_eq_iff)

lemma dict_get_set: "dict_get (dict_set d k v) k' dflt = (if k' = k then v else dict_get d k' dflt)"
  by (simp add: dict_get_def map_of_dict_set)

lemma dict_has_set: "dict_has (dict_set d k v) k' = (k' = k \<or> dict_has d k')"
  by (simp add: dict_has_def map_of_dict_set)

lemma basename_append: "CHR ''/'' \<notin> set n \<Longrightarrow> basename (p @ ''/'' @ n) = n"
proof -
  assume a: "CHR ''/'' \<notin> set n"
  have "takeWhile (\<lambda>c. c \<noteq> CHR ''/'') (rev n @ CHR ''/'' # rev p) = rev n"
    using a by (subst takeWhile_append2) auto
  then show ?thesis
    by (simp add: basename_def)
qed

lemma basename_file_path: "CHR ''/'' \<notin> set (fname f) \<Longrightarrow> basename (file_path f) = fname f"
  unfolding file_path_def by (rule basename_append)

lemma lower_dir: "lower (file_path f) = ''../benchmarks/'' @ lower (fname f)"
  by (simp add: file_path_def BENCHMARK_DIR_def lower_def char_lower_def)

lemma contains_multi_path:
  "str_contains (lower (file_path f)) ''multi'' = str_contains (lower (fname f)) ''multi''"
  unfolding lower_dir by simp

lemma contains_single_path:
  "str_contains (lower (file_path f)) ''single'' = str_contains (lower (fname f)) ''single''"
  unfolding lower_dir by simp








subsection \<open>Normalization of one artifact\<close>

lemma infer_scenario_other:
  "k \<noteq> ''scenario'' \<Longrightarrow> dict_get (infer_scenario d p) k dflt = dict_get d k dflt"
  by (simp add: infer_scenario_def dict_get_set)

lemma infer_scenario_scenario:
  "scenario_of (infer_scenario d (file_path f)) = stated_scenario (lower (fname f)) d"
  by (simp add: infer_scenario_def scenario_of_def stated_scenario_def dict_get_set
      contains_multi_path contains_single_path)

lemma stated_scenario_cong:
  "map_of d ''scenario'' = map_of e ''scenario'' \<Longrightarrow> stated_scenario n d = stated_scenario n e"
  by (simp add: stated_scenario_def dict_has_def dict_get_def)

lemma client_record_props:
  assumes "client_record f data (JObj e) = Inr r"
  shows "dict_get r ''report_id'' JNull = dict_get data ''benchmark_id'' (JStr ''unknown'')"
    and "dict_get r ''num_clients'' JNull = dict_get data ''num_clients'' (JNum 1)"
    and "dict_get r ''filename'' JNull = JStr (basename (file_path f))"
    and "dict_get r ''file_mtime'' JNull = JNum (mtime f)"
    and "scenario_of r = expected_scenario (fname f) e"
proof -
  let ?r4 = "dict_set (dict_set (dict_set (dict_set e ''filename'' (JStr (basename (file_path f))))
      ''file_mtime'' (JNum (mtime f))) ''report_id'' (dict_get data ''benchmark_id'' (JStr ''unknown'')))
      ''num_clients'' (dict_get data ''num_clients'' (JNum 1))"
  from assms have r: "r = infer_scenario ?r4 (file_path f)"
    by (simp add: Let_def)
  show "dict_get r ''report_id'' JNull = dict_get data ''benchmark_id'' (JStr ''unknown'')"
    by (simp add: r infer_scenario_other dict_get_set)
  show "dict_get r ''num_clients'' JNull = dict_get data ''num_clients'' (JNum 1)"
    by (simp add: r infer_scenario_other dict_get_set)
  show "dict_get r ''filename'' JNull = JStr (basename (file_path f))"
    by (simp add: r infer_scenario_other dict_get_set)
  show "dict_get r ''file_mtime'' JNull = JNum (mtime f)"
    by (simp add: r infer_scenario_other dict_get_set)
  have "map_of ?r4 ''scenario'' = map_of e ''scenario''"
    by (simp add: map_of_dict_set)
  then show "scenario_of r = expected_scenario (fname f) e"
    unfolding r infer_scenario_scenario expected_scenario_def
    by (rule stated_scenario_cong)
qed

lemma client_records_objs:
  "\<exists>recs. client_records f data (map JObj es) = Inr recs
     \<and> list_all2 (\<lambda>e r. client_record f data (JObj e) = Inr r) es recs"
proof (induction es)
  case Nil
  then show ?case by simp
next
  case (Cons e es)
  then obtain recs where recs: "client_records f data (map JObj es) = Inr recs"
    "list_all2 (\<lambda>e r. client_record f data (JObj e) = Inr r) es recs" by blast
  obtain r where r: "client_record f data (JObj e) = Inr r"
    by (simp add: Let_def)
  have "client_records f data (map JObj (e # es)) = Inr (r # recs)"
    using r recs(1) by (simp add: bind_err_def del: client_record.simps)
  with r recs(2) show ?case by simp
qed

lemma as_dicts_Some: "as_dicts xs = Some es \<longleftrightarrow> xs = map JObj es"
proof (induction xs arbitrary: es rule: as_dicts.induct)
  case 1
  then show ?case by auto
next
  case (2 d xs)
  then show ?case by (cases es) auto
qed auto

lemma single_record_props:
  assumes "\<not> dict_has data ''client_results''"
  shows "\<exists>r. normalize f (JObj data) = Inr [r]
     \<and> dict_get r ''filename'' JNull = JStr (basename (file_path f))
     \<and> dict_get r ''file_mtime'' JNull = JNum (mtime f)
     \<and> scenario_of r = expected_scenario (fname f) data"
proof -
  let ?d2 = "dict_set (dict_set data ''filename'' (JStr (basename (file_path f))))
      ''file_mtime'' (JNum (mtime f))"
  have n: "normalize f (JObj data) = Inr [infer_scenario ?d2 (file_path f)]"
    using assms by (simp add: Let_def)
  have "map_of ?d2 ''scenario'' = map_of data ''scenario''"
    by (simp add: map_of_dict_set)
  then have "scenario_of (infer_scenario ?d2 (file_path f)) = expected_scenario (fname f) data"
    unfolding infer_scenario_scenario expected_scenario_def
    by (rule stated_scenario_cong)
  then show ?thesis
    unfolding n by (simp add: infer_scenario_other dict_get_set)
qed

lemma multi_report_normalize:
  assumes "map_of data ''client_results'' = Some (JArr (map JObj es))"
  shows "\<exists>recs. normalize f (JObj data) = Inr recs
     \<and> list_all2 (\<lambda>e r. client_record f data (JObj e) = Inr r) es recs"
proof -
  have "normalize f (JObj data) = client_records f data (map JObj es)"
    using assms by (simp add: dict_has_def dict_get_def bind_err_def)
  then show ?thesis
    using client_records_objs [of f data es] by simp
qed

text \<open>
  C4. A multi-client report whose \<open>client_results\<close> holds N record-shaped entries
  normalizes to exactly N records; each carries the parent's run identifier
  (\<open>benchmark_id\<close>, \<open>unknown\<close> when absent) as \<open>report_id\<close>, the parent's declared
  \<open>num_clients\<close> (1 when absent), the source file name and the file modification time.
\<close>

theorem multi_client_report_records:
  assumes "content f = Parsed (JObj data)"
    and "map_of data ''client_results'' = Some (JArr (map JObj entries))"
    and "CHR ''/'' \<notin> set (fname f)"
  shows "\<exists>recs. process_file f = Inr recs \<and> length recs = length entries
     \<and> (\<forall>r \<in> set recs.
           dict_get r ''report_id'' JNull = dict_get data ''benchmark_id'' (JStr ''unknown'')
         \<and> dict_get r ''num_clients'' JNull = dict_get data ''num_clients'' (JNum 1)
         \<and> dict_get r ''filename'' JNull = JStr (fname f)
         \<and> dict_get r ''file_mtime'' JNull = JNum (mtime f))"
proof -
  from multi_report_normalize [OF assms(2), of f] obtain recs where
    n: "normalize f (JObj data) = Inr recs"
    and all: "list_all2 (\<lambda>e r. client_record f data (JObj e) = Inr r) entries recs"
    by blast
  have p: "process_file f = Inr recs"
    using assms(1) n by (simp add: process_file_def)
  have len: "length recs = length entries"
    using all by (simp add: list_all2_lengthD)
  have each: "dict_get r ''report_id'' JNull = dict_get data ''benchmark_id'' (JStr ''unknown'')
         \<and> dict_get r ''num_clients'' JNull = dict_get data ''num_clients'' (JNum 1)
         \<and> dict_get r ''filename'' JNull = JStr (fname f)
         \<and> dict_get r ''file_mtime'' JNull = JNum (mtime f)" if "r \<in> set recs" for r
  proof -
    from that all obtain e where "client_record f data (JObj e) = Inr r"
      by (auto simp: list_all2_conv_all_nth in_set_conv_nth)
    from client_record_props [OF this] show ?thesis
      by (simp add: basename_file_path [OF assms(3)])
  qed
  from p len each show ?thesis by blast
qed

theorem multi_client_report_records_witness:
  "\<exists>recs. process_file multi_m = Inr recs \<and> length recs = 2
     \<and> list_all (\<lambda>r. dict_get r ''report_id'' JNull = JStr ''run-42''
         \<and> dict_get r ''num_clients'' JNull = JNum 2
         \<and> dict_get r ''filename'' JNull = JStr ''benchmark_multi_client_42.json''
         \<and> dict_get r ''file_mtime'' JNull = JNum 10) recs"
proof -
  have h1: "content multi_m = Parsed (JObj [(''benchmark_id'', JStr ''run-42''),
       (''num_clients'', JNum 2),
       (''client_results'', JArr [JObj [(''session_id'', JStr ''c1'')],
                                  JObj [(''session_id'', JStr ''c2'')]])])"
    by (simp add: multi_m_def)
  have h2: "map_of [(''benchmark_id'', JStr ''run-42''),
       (''num_clients'', JNum 2),
       (''client_results'', JArr [JObj [(''session_id'', JStr ''c1'')],
                                  JObj [(''session_id'', JStr ''c2'')]])] ''client_results''
     = Some (JArr (map JObj [[(''session_id'', JStr ''c1'')], [(''session_id'', JStr ''c2'')]]))"
    by simp
  have h3: "CHR ''/'' \<notin> set (fname multi_m)"
    by (simp add: multi_m_def)
  from multi_client_report_records [OF h1 h2 h3] show ?thesis
    by (simp add: list_all_iff dict_get_def multi_m_def numeral_2_eq_2)
qed


text \<open>
  C5, as the code has it. A record without a \<open>scenario\<close> key gets its scenario from
  the lower-cased file path, which contains \<open>multi\<close> or \<open>single\<close> exactly when the
  lower-cased file name does: \<open>multi-client\<close>, else \<open>single-client\<close>, else
  \<open>unknown\<close>. A record that has the key keeps its value. This holds for the single
  record of an individual file and for every entry of a multi-client report.
\<close>

theorem scenario_inference:
  assumes "content f = Parsed (JObj data)" and "raw_entries data = Some entries"
  shows "\<exists>recs. process_file f = Inr recs
     \<and> map scenario_of recs = map (expected_scenario (fname f)) entries"
proof (cases "dict_has data ''client_results''")
  case False
  with assms(2) have e: "entries = [data]"
    by (simp add: raw_entries_def)
  from single_record_props [OF False, of f] obtain r where
    "normalize f (JObj data) = Inr [r]" "scenario_of r = expected_scenario (fname f) data"
    by blast
  then show ?thesis
    using assms(1) by (simp add: process_file_def e)
next
  case True
  with assms(2) obtain xs where xs: "dict_get data ''client_results'' JNull = JArr xs"
    and "as_dicts xs = Some entries"
    by (auto simp: raw_entries_def split: json.splits)
  then have "xs = map JObj entries"
    by (simp add: as_dicts_Some)
  with xs True have m: "map_of data ''client_results'' = Some (JArr (map JObj entries))"
    by (auto simp: dict_get_def dict_has_def)
  from multi_report_normalize [OF m, of f] obtain recs where
    n: "normalize f (JObj data) = Inr recs"
    and all: "list_all2 (\<lambda>e r. client_record f data (JObj e) = Inr r) entries recs"
    by blast
  have "list_all2 (\<lambda>e r. scenario_of r = expected_scenario (fname f) e) entries recs"
    using all by (rule list_all2_mono) (rule client_record_props(5))
  then have "map scenario_of recs = map (expected_scenario (fname f)) entries"
    by (induction entries recs rule: list_all2_induct) simp_all
  with n assms(1) show ?thesis
    by (simp add: process_file_def)
qed

theorem scenario_inference_witness:
  "\<exists>recs. process_file report_99 = Inr recs \<and> map scenario_of recs = [JStr ''unknown'']"
proof -
  have h1: "content report_99 = Parsed (JObj [(''session_id'', JStr ''r'')])"
    by (simp add: report_99_def)
  have h2: "raw_entries [(''session_id'', JStr ''r'')] = Some [[(''session_id'', JStr ''r'')]]"
    by (simp add: raw_entries_def dict_has_def)
  have e: "expected_scenario (fname report_99) [(''session_id'', JStr ''r'')] = JStr ''unknown''"
    by code_simp
  from scenario_inference [OF h1 h2] show ?thesis
    by (simp add: e)
qed

text \<open>
  C5 as stated looks for the substrings in the file name itself. The code lower-cases the
  path first, so the file \<open>benchmark_MULTI_1.json\<close>, whose name contains neither
  \<open>multi\<close> nor \<open>single\<close>, is normalized to \<open>multi-client\<close> and not to \<open>unknown\<close>.
\<close>

theorem scenario_case_counterexample:
  "process_file upper_file =
     Inr [[(''filename'', JStr ''benchmark_MULTI_1.json''), (''file_mtime'', JNum 1),
           (''scenario'', JStr ''multi-client'')]]
   \<and> stated_scenario (fname upper_file) [] = JStr ''unknown''"
proof
  show "process_file upper_file =
     Inr [[(''filename'', JStr ''benchmark_MULTI_1.json''), (''file_mtime'', JNum 1),
           (''scenario'', JStr ''multi-client'')]]"
    by code_simp
  show "stated_scenario (fname upper_file) [] = JStr ''unknown''"
    by code_simp
qed

subsection \<open>A malformed file is skipped\<close>













subsection \<open>Files matched by both patterns\<close>





section \<open>Properties of the grouping into runs\<close>


lemma hashable_hkey: "hashable (hkey a) = hashable a"
  by (cases a) auto















lemma str_keys_append_client: "str_keys (append_client rs rid cid) = str_keys rs"
  by (induction rs) (auto simp: str_keys_def sort_key_of_def)

lemma group_step_returns:
  assumes "run_record_ok b" and "str_keys runs"
  shows "\<exists>runs'. group_step runs b = Inr runs' \<and> str_keys runs'"
  using assms
  by (auto simp: group_step_def run_record_ok_def run_key_def Let_def str_keys_append_client)
     (auto simp: str_keys_def sort_key_of_def)

lemma group_loop_returns:
  "list_all run_record_ok bs \<Longrightarrow> str_keys runs \<Longrightarrow>
     \<exists>runs'. group_loop runs bs = Inr runs' \<and> str_keys runs'"
proof (induction bs arbitrary: runs)
  case Nil
  then show ?case by simp
next
  case (Cons b bs)
  from Cons.prems have ok: "run_record_ok b" and rest: "list_all run_record_ok bs" by simp_all
  from group_step_returns [OF ok Cons.prems(2)] obtain runs1 where
    s: "group_step runs b = Inr runs1" "str_keys runs1" by blast
  from Cons.IH [OF rest s(2)] show ?case
    by (simp add: s(1) bind_err_def)
qed

lemma list_runs_returns: "list_all run_record_ok bs \<Longrightarrow> \<exists>runs. list_runs bs = Inr runs"
proof -
  assume "list_all run_record_ok bs"
  moreover have "str_keys []" by (simp add: str_keys_def)
  ultimately obtain rs where rs: "group_loop [] bs = Inr rs" "str_keys rs"
    using group_loop_returns by blast
  then show ?thesis
    by (auto simp: list_runs_def bind_err_def sort_runs_def str_keys_def)
qed




section \<open>Properties of the lookup\<close>

lemma get_benchmark_miss:
  assumes "find (\<lambda>b. py_eq (dict_get b ''session_id'' JNull) (JStr session_id))
             (load_benchmark_files dir) = None"
  shows "get_benchmark dir session_id =
     Inl (HTTPException 500 ''Failed to get benchmark: ''
            (Some (HTTPException 404 ''Benchmark not found'' None)))"
  using assms by (simp add: get_benchmark_def find_benchmark_def)

lemma get_benchmark_not_404: "get_benchmark dir session_id \<noteq> Inl (HTTPException 404 d c)"
  by (simp add: get_benchmark_def split: sum.splits)

lemma get_benchmark_hit:
  assumes "find (\<lambda>b. py_eq (dict_get b ''session_id'' JNull) (JStr session_id))
             (load_benchmark_files dir) = Some b" and "b \<noteq> []"
  shows "get_benchmark dir session_id = Inr b"
  using assms by (simp add: get_benchmark_def find_benchmark_def)

text \<open>
  C7 at a concrete directory. The directory holds one record, with session id \<open>a\<close>.
  The lookup of \<open>a\<close> returns the record. The lookup of \<open>nope\<close>, which no record has,
  raises the 404 inside the \<^verbatim>\<open>try\<close>, and the handler turns it into the 500: the caller
  gets an internal server error whose cause is the 404, not the lookup miss.
\<close>

theorem get_benchmark_unknown_session_500:
  "find (\<lambda>b. py_eq (dict_get b ''session_id'' JNull) (JStr ''nope''))
       (load_benchmark_files [single_a]) = None
   \<and> get_benchmark [single_a] ''nope'' =
       Inl (HTTPException 500 ''Failed to get benchmark: ''
              (Some (HTTPException 404 ''Benchmark not found'' None)))
   \<and> get_benchmark [single_a] ''a'' =
       Inr [(''session_id'', JStr ''a''), (''filename'', JStr ''benchmark_single_7.json''),
            (''file_mtime'', JNum 20), (''scenario'', JStr ''single-client'')]"
proof (intro conjI)
  show "find (\<lambda>b. py_eq (dict_get b ''session_id'' JNull) (JStr ''nope''))
       (load_benchmark_files [single_a]) = None"
    by code_simp
  show "get_benchmark [single_a] ''nope'' =
       Inl (HTTPException 500 ''Failed to get benchmark: ''
              (Some (HTTPException 404 ''Benchmark not found'' None)))"
    by code_simp
  show "get_benchmark [single_a] ''a'' =
       Inr [(''session_id'', JStr ''a''), (''filename'', JStr ''benchmark_single_7.json''),
            (''file_mtime'', JNum 20), (''scenario'', JStr ''single-client'')]"
    by code_simp
qed

section \<open>Properties of the run supervisor\<close>

lemma begin_run_cwd:
  "cwd (snd (begin_run env cfg s)) = (if chdir_error env = None then butlast (cwd s) else cwd s)"
  by (simp add: begin_run_def Let_def WORKSPACE_DIR_def enter_def
      split: option.splits spawn_result.splits)

lemma await_run_cwd: "cwd (snd (await_run env s)) = cwd s"
  by (simp add: await_run_def Let_def split: option.splits)



text \<open>
  The exit paths at concrete inputs: the process exits with 0, it exits with 2, and the
  spawn fails. While the process runs the working directory is the parent directory.
\<close>

lemma str_int_2: "str_int 2 = ''2''"
  by code_simp

lemma run_exit_paths:
  "run_benchmark_process demo_env demo_config idle =
     (\<lparr>success = True, result_message = ''Benchmark completed successfully'',
       result_stdout = ''ok'', result_stderr = []\<rparr>,
      idle\<lparr>message := ''Benchmark completed successfully''\<rparr>)"
  "run_benchmark_process (demo_env\<lparr>returncode := 2\<rparr>) demo_config idle =
     (\<lparr>success = False, result_message = ''Benchmark failed with return code 2'',
       result_stdout = ''ok'', result_stderr = []\<rparr>,
      idle\<lparr>message := ''Benchmark failed with code 2''\<rparr>)"
  "run_benchmark_process (demo_env\<lparr>popen := (\<lambda>cmd. SpawnFailed ''No such file'')\<rparr>)
       demo_config idle =
     (\<lparr>success = False, result_message = ''Error running benchmark: No such file'',
       result_stdout = [], result_stderr = ''No such file''\<rparr>,
      idle\<lparr>message := ''Benchmark error: No such file''\<rparr>)"
  "cwd (snd (begin_run demo_env demo_config idle)) = [''srv'', ''zkp-fl'']"
  by (simp_all add: run_benchmark_process_def try_block_def begin_run_def await_run_def
      except_block_def finally_block_def demo_env_def idle_def WORKSPACE_DIR_def enter_def
      str_int_2 Let_def)

text \<open>
  The flag \<open>running\<close> is set by the background task, not by the handler: while it is
  not set, the handler accepts the request and schedules the run.
\<close>

lemma start_when_idle_accepted:
  "\<not> running s \<Longrightarrow>
     run_benchmark request s =
       (Inr \<lparr>started_success = True, started_message = ''Benchmark started'',
             started_config = config request\<rparr>,
        s\<lparr>scheduled := scheduled s @ [config request]\<rparr>)"
  by (simp add: run_benchmark_def)



end
